theory Spec2Isabelle
  imports Main "HOL-Library.Word" "HOL-Library.Signed_Division" "HOL-Library.AList"
begin

section \<open>The route cache of the HTTP component\<close>

text \<open>
  The embedded code is package \<open>cache\<close> (the third document of
  \<^verbatim>\<open>src/client/mqtt/publisher.go\<close>, lines 244 to 401): the builder
  \<open>NewRouteCache\<close>, the conversion \<open>Age.toAgeInSeconds\<close>, the capturing writer
  \<open>responseReadWriter\<close>, the executor \<open>httpExecutor\<close> and the entry point \<open>Handler\<close>.
  Go's mutation of a receiver is explicit state passing here: a method takes the value
  and returns the updated one beside its results.
\<close>

subsection \<open>Basic types\<close>

type_synonym byte = "8 word"

text \<open>\<open>time.Duration\<close> is an \<open>int64\<close> count of nanoseconds.\<close>

type_synonym Duration = "64 word"

text \<open>
  Go's \<open>/\<close> on \<open>int64\<close> truncates towards zero; HOL's \<open>div\<close> on \<open>int\<close> rounds down,
  so the quotient is taken with \<open>sdiv\<close> on the signed values and wrapped back to 64 bits.
\<close>

definition int64_div :: "64 word \<Rightarrow> 64 word \<Rightarrow> 64 word" where
  "int64_div a b = word_of_int (sint a sdiv sint b)"

definition Second :: Duration where
  "Second = 1000000000"

definition Millisecond :: Duration where
  "Millisecond = 1000000"

text \<open>\<open>Duration.Milliseconds\<close> of the standard library: \<open>int64(d) / 1e6\<close>.\<close>

definition Milliseconds :: "Duration \<Rightarrow> 64 word" where
  "Milliseconds d = int64_div d Millisecond"

text \<open>
  Error values: \<open>errors.New\<close>, the wrapping \<open>fmt.Errorf\<close> with \<open>%w\<close> (the message
  prefix and the wrapped cause), and \<open>io.EOF\<close>.
\<close>

datatype error = New string | Errorf string error | EOF

subsection \<open>Age and the builder\<close>

text \<open>
  The exported \<open>Age\<close> struct. Its fields \<open>Min\<close> and \<open>Max\<close> carry a suffix, since
  \<open>Min\<close> and \<open>Max\<close> are constants of HOL.
\<close>

record Age =
  Min_age :: Duration
  Max_age :: Duration

text \<open>The internal \<open>age\<close> struct, fields \<open>min\<close> and \<open>max\<close> in whole seconds.\<close>

record age =
  min_sec :: "64 word"
  max_sec :: "64 word"

definition toAgeInSeconds :: "Age \<Rightarrow> age" where
  "toAgeInSeconds a =
     \<lparr>min_sec = int64_div (Min_age a) Second, max_sec = int64_div (Max_age a) Second\<rparr>"

text \<open>
  Modelled from the spec: \<open>hasNoAgeConfig\<close> is called by \<open>NewRouteCache\<close> but is not
  under src/. Section 4.1: a warning is emitted "when both are zero".
\<close>

definition hasNoAgeConfig :: "64 word \<Rightarrow> 64 word \<Rightarrow> bool" where
  "hasNoAgeConfig minAge maxAge \<longleftrightarrow> minAge = 0 \<and> maxAge = 0"

text \<open>
  \<open>RouteCache\<close> holds the \<open>cache.TTLCache\<close> interface value, which may be \<open>nil\<close>
  (\<open>None\<close>), and the age in seconds. The type of the store behind the interface is a
  parameter.
\<close>

record 'c RouteCache =
  cache :: "'c option"
  route_age :: age

datatype log_line = Warnf string Age

text \<open>
  \<open>NewRouteCache\<close> returns the pointer to the new \<open>RouteCache\<close> (never \<open>nil\<close>: every path
  reaches the one \<open>return\<close>, so the first component is always \<open>Some\<close>) with the list of
  errors; the third component is what it logs.
\<close>

definition NewRouteCache ::
  "'c option \<Rightarrow> Age \<Rightarrow> 'c RouteCache option \<times> error list \<times> log_line list" where
  "NewRouteCache ttlCache a =
     (let errs = [];
          errs = (if ttlCache = None then errs @ [New ''route cache is nil''] else errs);
          errs = (if Max_age a <s Min_age a
                  then errs @ [New ''max age must always be greater than min age'']
                  else errs);
          logs = (if hasNoAgeConfig (Milliseconds (Min_age a)) (Milliseconds (Max_age a))
                  then [Warnf ''route cache disabled because of empty Age property %v'' a]
                  else [])
      in (Some \<lparr>cache = ttlCache, route_age = toAgeInSeconds a\<rparr>, errs, logs))"

subsection \<open>The capturing writer\<close>

text \<open>
  \<open>http.Header\<close> is a \<open>map[string][]string\<close>. It is an association list with distinct
  keys here, so that the \<open>range\<close> loop of \<open>Handler\<close> can run over it; the loop sets each
  key once, so its result does not depend on the order in which Go visits the keys. Keys
  are taken in the canonical form that \<open>Header.Set\<close> and \<open>Header.Add\<close> produce.
\<close>

type_synonym http_Header = "(string \<times> string list) list"

definition Header_Set :: "string \<Rightarrow> string \<Rightarrow> http_Header \<Rightarrow> http_Header" where
  "Header_Set k v h = AList.update k [v] h"

definition Header_Add :: "string \<Rightarrow> string \<Rightarrow> http_Header \<Rightarrow> http_Header" where
  "Header_Add k v h =
     AList.update k ((case map_of h k of None \<Rightarrow> [] | Some vs \<Rightarrow> vs) @ [v]) h"

definition Header_Del :: "string \<Rightarrow> http_Header \<Rightarrow> http_Header" where
  "Header_Del k h = AList.delete k h"

text \<open>
  \<open>responseReadWriter\<close>: the field \<open>buffer\<close> is the unread content of the
  \<open>bytes.Buffer\<close>.
\<close>

record responseReadWriter =
  buffer :: "byte list"
  len :: nat
  header :: http_Header
  statusCode :: int

text \<open>
  \<open>newResponseReadWriter\<close> sets \<open>buffer\<close> and \<open>header\<close> only; \<open>len\<close> and \<open>statusCode\<close>
  keep Go's zero value.
\<close>

definition newResponseReadWriter :: responseReadWriter where
  "newResponseReadWriter = \<lparr>buffer = [], len = 0, header = [], statusCode = 0\<rparr>"

text \<open>
  \<open>bytes.Buffer.Read\<close> of the standard library, for a destination of \<open>n\<close> bytes: on an
  empty buffer it returns \<open>io.EOF\<close> unless \<open>n\<close> is zero; otherwise it hands out the next
  \<open>n\<close> bytes, or all that is left. The result is the bytes read, the error and the
  buffer that remains.
\<close>

definition Buffer_Read :: "byte list \<Rightarrow> nat \<Rightarrow> byte list \<times> error option \<times> byte list" where
  "Buffer_Read buf n =
     (if buf = [] then (if n = 0 then ([], None, buf) else ([], Some EOF, buf))
      else (take n buf, None, drop n buf))"

text \<open>
  \<open>Read\<close> fills the slice \<open>p\<close> from the buffer: the bytes read overwrite the front of
  \<open>p\<close>. It returns the slice afterwards, the count, the error and the writer.
\<close>

definition Read ::
  "responseReadWriter \<Rightarrow> byte list \<Rightarrow> byte list \<times> nat \<times> error option \<times> responseReadWriter" where
  "Read rw p =
     (case Buffer_Read (buffer rw) (length p) of
        (got, err, rest) \<Rightarrow>
          (got @ drop (length got) p, length got, err, rw\<lparr>buffer := rest\<rparr>))"

definition ReadAll ::
  "responseReadWriter \<Rightarrow> byte list \<times> error option \<times> responseReadWriter" where
  "ReadAll rw =
     (if len rw = 0 then ([], None, rw)
      else (case Read rw (replicate (len rw) 0) of
              (b, n, err, rw') \<Rightarrow> (b, err, rw')))"

text \<open>\<open>Write\<close> records the length of this slice and appends it to the buffer.\<close>

definition Write ::
  "responseReadWriter \<Rightarrow> byte list \<Rightarrow> nat \<times> error option \<times> responseReadWriter" where
  "Write rw p = (length p, None, rw\<lparr>len := length p, buffer := buffer rw @ p\<rparr>)"

definition WriteHeader :: "responseReadWriter \<Rightarrow> int \<Rightarrow> responseReadWriter" where
  "WriteHeader rw code = rw\<lparr>statusCode := code\<rparr>"

text \<open>
  A downstream handler sees the writer through \<open>http.ResponseWriter\<close>: it can call
  \<open>Write\<close> and \<open>WriteHeader\<close>, and change the map that \<open>Header()\<close> returns (\<open>Set\<close>,
  \<open>Add\<close>, \<open>Del\<close>, or a direct store \<open>Header()[k] = vs\<close>). None of these calls returns an
  error, so the run of a handler on a request is the list of calls it makes.
\<close>

datatype call =
    Call_Write "byte list"
  | Call_WriteHeader int
  | Call_Header_Set string string
  | Call_Header_Add string string
  | Call_Header_Del string
  | Call_Header_Store string "string list"

fun do_call :: "call \<Rightarrow> responseReadWriter \<Rightarrow> responseReadWriter" where
  "do_call (Call_Write p) rw = snd (snd (Write rw p))"
| "do_call (Call_WriteHeader code) rw = WriteHeader rw code"
| "do_call (Call_Header_Set k v) rw = rw\<lparr>header := Header_Set k v (header rw)\<rparr>"
| "do_call (Call_Header_Add k v) rw = rw\<lparr>header := Header_Add k v (header rw)\<rparr>"
| "do_call (Call_Header_Del k) rw = rw\<lparr>header := Header_Del k (header rw)\<rparr>"
| "do_call (Call_Header_Store k vs) rw = rw\<lparr>header := AList.update k vs (header rw)\<rparr>"

definition ServeHTTP :: "call list \<Rightarrow> responseReadWriter \<Rightarrow> responseReadWriter" where
  "ServeHTTP calls rw = fold do_call calls rw"

subsection \<open>The executor\<close>

text \<open>
  The types \<open>handlerResponse\<close>, \<open>response\<close> and \<open>executor\<close> are declared outside src/;
  their fields are those that \<open>httpExecutor\<close> and \<open>Handler\<close> write and read. A response
  has no field for a status code.
\<close>

record handlerResponse =
  Bytes :: "byte list"
  Header :: http_Header

record response =
  Response :: handlerResponse
  LastValid :: int
  Etag :: string
  Err :: "error option"

text \<open>An executor takes \<open>now\<close> (seconds) and the cache key.\<close>

type_synonym executor = "int \<Rightarrow> string \<Rightarrow> response"

function decimal :: "nat \<Rightarrow> string" where
  "decimal n =
     (if n < 10 then [char_of (48 + n)]
      else decimal (n div 10) @ [char_of (48 + n mod 10)])"
  by pat_completeness auto
termination
  by (relation "measure id") auto

text \<open>
  Modelled from the spec: \<open>generateETag\<close> is called by \<open>httpExecutor\<close> with the bytes of
  the key and a nanosecond reading, but is not under src/. Section 4.2 calls its result
  "an opaque fingerprint string". The fingerprint here keeps both arguments readable
  (the key, a dash, the number in decimal), so that it tells apart whatever its
  arguments tell apart.
\<close>

definition generateETag :: "byte list \<Rightarrow> nat \<Rightarrow> string" where
  "generateETag k t = map (\<lambda>b. char_of (unat b)) k @ ''-'' @ decimal t"

text \<open>\<open>[]byte(key)\<close>.\<close>

definition bytes_of :: "string \<Rightarrow> byte list" where
  "bytes_of s = map (\<lambda>c. of_nat (of_char c)) s"

text \<open>
  The request as far as this package looks at it: method and path, and the two
  \<open>Cache-Control\<close> directives of the client, \<open>None\<close> when absent.
\<close>

record Request =
  Method :: string
  Path :: string
  max_age :: "int option"
  min_fresh :: "int option"

text \<open>A handler function answers a request with the calls it makes on its writer.\<close>

type_synonym HandlerFunc = "Request \<Rightarrow> call list"

text \<open>
  \<open>httpExecutor\<close> ignores the outgoing writer it is given. \<open>nsec\<close> is the reading of
  \<open>time.Now().Nanosecond()\<close>, the nanosecond offset within the current second. On an
  error only \<open>Err\<close> is set, the other fields keep their zero values.
\<close>

definition httpExecutor :: "'w \<Rightarrow> Request \<Rightarrow> HandlerFunc \<Rightarrow> nat \<Rightarrow> executor" where
  "httpExecutor w request hnd nsec = (\<lambda>now key.
     (case ReadAll (ServeHTTP (hnd request) newResponseReadWriter) of
        (payload, err, rw) \<Rightarrow>
          (case err of
             None \<Rightarrow>
               \<lparr>Response = \<lparr>Bytes = payload, Header = header rw\<rparr>,
                LastValid = now,
                Etag = generateETag (bytes_of key) nsec,
                Err = None\<rparr>
           | Some e \<Rightarrow>
               \<lparr>Response = \<lparr>Bytes = [], Header = []\<rparr>,
                LastValid = 0, Etag = [], Err = Some e\<rparr>)))"

subsection \<open>The cache processor\<close>

text \<open>
  Modelled from the spec: the type \<open>handlerRequest\<close> is declared outside src/. It
  carries what the decision engine of section 4.4 reads: the cache key and the client's
  \<open>max-age\<close> and \<open>min-fresh\<close> directives, \<open>None\<close> when absent.
\<close>

record handlerRequest =
  key :: string
  maxAge :: "int option"
  minFresh :: "int option"

text \<open>
  Modelled from the spec: \<open>toCacheHandlerRequest\<close> is called by \<open>Handler\<close> but is not
  under src/. Section 3: the cache key is "derived deterministically and exclusively
  from request identity (method + path ...)"; section 6: the directives read from the
  request are \<open>max-age\<close> and \<open>min-fresh\<close>.
\<close>

definition toCacheHandlerRequest :: "Request \<Rightarrow> handlerRequest" where
  "toCacheHandlerRequest r =
     \<lparr>key = Method r @ Path r, maxAge = max_age r, minFresh = min_fresh r\<rparr>"

text \<open>
  Modelled from the spec: the TTL store behind \<open>cache.TTLCache\<close> is an external
  collaborator (section 6: \<open>get(key)\<close> and \<open>set(key, entry, ttl)\<close>). It is a map from
  keys to the entry and the TTL it was stored with. A lookup that cannot be made (a
  \<open>nil\<close> store) counts as "no entry present" and a store that cannot be written is
  skipped (section 7). Expiry is the store's own business and is not modelled.
\<close>

type_synonym TTLCache = "string \<rightharpoonup> response \<times> 64 word"

text \<open>
  Modelled from the spec: \<open>get(key)\<close> of the TTL store (section 6). Without a store no
  entry is present.
\<close>

definition cache_Get :: "TTLCache option \<Rightarrow> string \<Rightarrow> response option" where
  "cache_Get c k = (case c of None \<Rightarrow> None | Some m \<Rightarrow> map_option fst (m k))"

text \<open>
  Modelled from the spec: \<open>set(key, entry, ttl)\<close> of the TTL store (section 6); the
  new entry replaces the old one whole. Without a store nothing is written.
\<close>

definition cache_Set ::
  "TTLCache option \<Rightarrow> string \<Rightarrow> response \<Rightarrow> 64 word \<Rightarrow> TTLCache option" where
  "cache_Set c k e ttl = map_option (\<lambda>m. m(k \<mapsto> (e, ttl))) c"

text \<open>
  Modelled from the spec: the freshness bound of the decision engine (section 4.4),
  which is part of the function \<open>handler\<close> that is not under src/. \<open>effectiveMaxAge\<close> is
  "the smaller of the route's configured maximum and any client-supplied \<open>max-age\<close>, but
  never smaller than the route's configured minimum".
\<close>

definition effectiveMaxAge :: "age \<Rightarrow> handlerRequest \<Rightarrow> int" where
  "effectiveMaxAge a req =
     max (sint (min_sec a))
         (min (sint (max_sec a))
              (case maxAge req of None \<Rightarrow> sint (max_sec a) | Some c \<Rightarrow> c))"

text \<open>
  Modelled from the spec: section 4.4 computes \<open>effectiveMinFresh\<close> "similarly from
  \<open>clientMinFresh\<close> and \<open>routeMin\<close>", and leaves the route's own bound in place when the
  client gives no directive: the client's value floored at the route's minimum, and the
  route's minimum when the client gives none.
\<close>

definition effectiveMinFresh :: "age \<Rightarrow> handlerRequest \<Rightarrow> int" where
  "effectiveMinFresh a req =
     max (sint (min_sec a))
         (case minFresh req of None \<Rightarrow> sint (min_sec a) | Some f \<Rightarrow> f)"

text \<open>
  Modelled from the spec: the outcomes and the decision of section 4.4. A route whose age
  collapsed to zero bounds is BYPASS; no entry is MISS; an entry is HIT when
  \<open>age \<le> effectiveMaxAge\<close> and \<open>effectiveMaxAge - age \<ge> effectiveMinFresh\<close>, where
  \<open>age = now - entry.lastValid\<close>, and MISS otherwise.
\<close>

datatype decision = HIT response | MISS | BYPASS

definition decide :: "age \<Rightarrow> handlerRequest \<Rightarrow> int \<Rightarrow> response option \<Rightarrow> decision" where
  "decide a req now entry =
     (if min_sec a = 0 \<and> max_sec a = 0 then BYPASS
      else (case entry of
              None \<Rightarrow> MISS
            | Some e \<Rightarrow>
                (let entry_age = now - LastValid e; m = effectiveMaxAge a req
                 in if entry_age \<le> m \<and> effectiveMinFresh a req \<le> m - entry_age
                    then HIT e else MISS)))"

text \<open>
  Modelled from the spec: the function \<open>handler\<close>, which \<open>Handler\<close> calls as
  \<open>handler(exec, rc)(req)\<close> and which is not under src/. Section 4.5: on HIT the stored
  entry is served and the executor is not called; on MISS and BYPASS the executor runs,
  its error is returned with nothing stored, and on MISS its response is stored under
  the same key with the route's maximum age as TTL. \<open>now\<close> is the clock reading the
  processor hands to the executor.
\<close>

definition handler ::
  "executor \<Rightarrow> TTLCache RouteCache \<Rightarrow> int \<Rightarrow> handlerRequest \<Rightarrow>
     (error + handlerResponse) \<times> TTLCache RouteCache" where
  "handler exec rc now req =
     (case decide (route_age rc) req now (cache_Get (cache rc) (key req)) of
        HIT e \<Rightarrow> (Inr (Response e), rc)
      | MISS \<Rightarrow>
          (let rsp = exec now (key req)
           in case Err rsp of
                Some err \<Rightarrow> (Inl err, rc)
              | None \<Rightarrow>
                  (Inr (Response rsp),
                   rc\<lparr>cache := cache_Set (cache rc) (key req) rsp (max_sec (route_age rc))\<rparr>))
      | BYPASS \<Rightarrow>
          (let rsp = exec now (key req)
           in case Err rsp of
                Some err \<Rightarrow> (Inl err, rc)
              | None \<Rightarrow> (Inr (Response rsp), rc)))"

subsection \<open>The entry point\<close>

text \<open>
  The outgoing \<open>http.ResponseWriter\<close> of the transport layer: its header map, the status
  line once it is written, the body sent so far, and the error its \<open>Write\<close> returns when
  the connection is broken. As in \<open>net/http\<close>, the first \<open>Write\<close> sends status 200 when
  \<open>WriteHeader\<close> was not called before.
\<close>

record ResponseWriter =
  out_header :: http_Header
  out_status :: "int option"
  out_body :: "byte list"
  out_fail :: "error option"

definition out_Write ::
  "ResponseWriter \<Rightarrow> byte list \<Rightarrow> nat \<times> error option \<times> ResponseWriter" where
  "out_Write w p =
     (case out_fail w of
        Some e \<Rightarrow> (0, Some e, w)
      | None \<Rightarrow>
          (length p, None,
           w\<lparr>out_status := Some (case out_status w of None \<Rightarrow> 200 | Some c \<Rightarrow> c),
             out_body := out_body w @ p\<rparr>))"

text \<open>
  The loop \<open>for k, h := range response.Header { w.Header().Set(k, h[0]) }\<close>. Indexing
  an empty \<open>h\<close> panics; the flag tells whether the loop ran to its end.
\<close>

fun range_Set :: "http_Header \<Rightarrow> http_Header \<Rightarrow> bool \<times> http_Header" where
  "range_Set [] wh = (True, wh)"
| "range_Set ((k, h) # rest) wh =
     (case h of [] \<Rightarrow> (False, wh) | v # _ \<Rightarrow> range_Set rest (Header_Set k v wh))"

datatype outcome = Returned "error option" | Panicked

text \<open>
  \<open>Handler\<close> from the call of the cache processor on, with the executor as a parameter.
\<close>

definition Handler_exec ::
  "executor \<Rightarrow> ResponseWriter \<Rightarrow> Request \<Rightarrow> TTLCache RouteCache \<Rightarrow> int \<Rightarrow>
     outcome \<times> ResponseWriter \<times> TTLCache RouteCache" where
  "Handler_exec exec w r rc now =
     (let req = toCacheHandlerRequest r
      in case handler exec rc now req of
           (Inl err, rc') \<Rightarrow>
             (Returned (Some (Errorf ''could not handle request with the cache processor'' err)),
              w, rc')
         | (Inr rsp, rc') \<Rightarrow>
             (case range_Set (Header rsp) (out_header w) of
                (False, wh) \<Rightarrow> (Panicked, w\<lparr>out_header := wh\<rparr>, rc')
              | (True, wh) \<Rightarrow>
                  (case out_Write (w\<lparr>out_header := wh\<rparr>) (Bytes rsp) of
                     (i, Some e, w') \<Rightarrow>
                       (Returned (Some (Errorf
                          (''could not Write cache processor result into Response '' @ decimal i) e)),
                        w', rc')
                   | (i, None, w') \<Rightarrow> (Returned None, w', rc'))))"


subsection \<open>Example runs\<close>

text \<open>
  The scenario of section 8 of the spec: a route with \<open>{min: 0s, max: 60s}\<close> and an empty
  store, a first request at second 100 and a second one at second 110 with no client
  directives. The downstream handler answers 404 with two cookies and the body \<open>v1\<close>.
\<close>

definition example_request :: Request where
  "example_request = \<lparr>Method = ''GET'', Path = ''/v'', max_age = None, min_fresh = None\<rparr>"

definition example_route :: "TTLCache RouteCache" where
  "example_route =
     \<lparr>cache = Some Map.empty,
      route_age = toAgeInSeconds \<lparr>Min_age = 0, Max_age = 60 * Second\<rparr>\<rparr>"


definition fresh_sink :: ResponseWriter where
  "fresh_sink = \<lparr>out_header = [], out_status = None, out_body = [], out_fail = None\<rparr>"



text \<open>A handler that writes its body in two pieces, and an executor that fails.\<close>

definition two_writes :: "call list" where
  "two_writes = [Call_Write [1, 2], Call_Write [3]]"

definition failing_executor :: executor where
  "failing_executor = (\<lambda>now k.
     \<lparr>Response = \<lparr>Bytes = [], Header = []\<rparr>, LastValid = 0, Etag = [], Err = Some EOF\<rparr>)"

section \<open>Properties\<close>

subsection \<open>The builder\<close>

text \<open>
  Claim C7. When \<open>NewRouteCache\<close> is called with a nil store together with an Age whose
  Min exceeds its Max, the returned error list holds both problems, in the order in which
  they are checked, and not just the first.
\<close>

theorem NewRouteCache_accumulates_errors:
  assumes "Max_age a <s Min_age a"
  shows "fst (snd (NewRouteCache None a)) =
           [New ''route cache is nil'', New ''max age must always be greater than min age'']"
  using assms by (simp add: NewRouteCache_def Let_def)

theorem NewRouteCache_accumulates_errors_witness:
  "fst (snd (NewRouteCache (None :: unit option) \<lparr>Min_age = 2 * Second, Max_age = Second\<rparr>)) =
     [New ''route cache is nil'', New ''max age must always be greater than min age'']"
proof -
  have "Max_age \<lparr>Min_age = 2 * Second, Max_age = Second\<rparr>
          <s Min_age \<lparr>Min_age = 2 * Second, Max_age = Second\<rparr>"
    by (simp add: Second_def)
  then show ?thesis
    by (rule NewRouteCache_accumulates_errors)
qed

text \<open>
  Claim C3, as the code has it. For every Age with Min above Max, \<open>NewRouteCache\<close>
  reports the configuration error in its error list, and it still returns a
  \<open>RouteCache\<close>, built from the store and the age it was given: the error list is the
  only sign of failure.
\<close>

theorem NewRouteCache_min_above_max:
  assumes "Max_age a <s Min_age a"
  shows "New ''max age must always be greater than min age''
           \<in> set (fst (snd (NewRouteCache c a))) \<and>
         fst (NewRouteCache c a) = Some \<lparr>cache = c, route_age = toAgeInSeconds a\<rparr>"
  using assms by (simp add: NewRouteCache_def Let_def)

theorem NewRouteCache_min_above_max_witness:
  "New ''max age must always be greater than min age''
     \<in> set (fst (snd (NewRouteCache (Some ()) \<lparr>Min_age = 2 * Second, Max_age = Second\<rparr>))) \<and>
   fst (NewRouteCache (Some ()) \<lparr>Min_age = 2 * Second, Max_age = Second\<rparr>) =
     Some \<lparr>cache = Some (), route_age = toAgeInSeconds \<lparr>Min_age = 2 * Second, Max_age = Second\<rparr>\<rparr>"
proof -
  have "Max_age \<lparr>Min_age = 2 * Second, Max_age = Second\<rparr>
          <s Min_age \<lparr>Min_age = 2 * Second, Max_age = Second\<rparr>"
    by (simp add: Second_def)
  then show ?thesis
    by (rule NewRouteCache_min_above_max)
qed

text \<open>With Min at two seconds and Max at one, a cache is produced all the same.\<close>

theorem NewRouteCache_min_above_max_counterexample:
  "Max_age \<lparr>Min_age = 2 * Second, Max_age = Second\<rparr>
     <s Min_age \<lparr>Min_age = 2 * Second, Max_age = Second\<rparr> \<and>
   fst (NewRouteCache (Some ()) \<lparr>Min_age = 2 * Second, Max_age = Second\<rparr>) \<noteq> None"
  by (simp add: NewRouteCache_def Let_def Second_def)

lemma int64_div_below_divisor:
  assumes "0 <s d" and "d <s Second"
  shows "int64_div d Second = 0"
proof -
  have s: "sint Second = 1000000000"
    by (simp add: Second_def)
  from assms have "0 < sint d" and "sint d < 1000000000"
    by (simp_all add: word_sless_alt s)
  then have "sint d sdiv 1000000000 = 0"
    by (simp add: signed_divide_int_def)
  then show ?thesis
    by (simp add: int64_div_def s)
qed

text \<open>
  Claim C9. For every Age whose Min and Max both lie strictly between zero and one
  second, \<open>toAgeInSeconds\<close> yields \<open>{min: 0, max: 0}\<close>, the same internal age as the
  disabled configuration \<open>{0, 0}\<close>, because the division by \<open>time.Second\<close> truncates; the
  \<open>RouteCache\<close> that \<open>NewRouteCache\<close> builds is then the one it builds for \<open>{0, 0}\<close>, so
  the route behaves as that one does.
\<close>

theorem toAgeInSeconds_sub_second:
  assumes "0 <s Min_age a" and "Min_age a <s Second"
      and "0 <s Max_age a" and "Max_age a <s Second"
  shows "toAgeInSeconds a = \<lparr>min_sec = 0, max_sec = 0\<rparr> \<and>
         toAgeInSeconds a = toAgeInSeconds \<lparr>Min_age = 0, Max_age = 0\<rparr> \<and>
         fst (NewRouteCache c a) = fst (NewRouteCache c \<lparr>Min_age = 0, Max_age = 0\<rparr>)"
proof -
  have zero: "toAgeInSeconds \<lparr>Min_age = 0, Max_age = 0\<rparr> = \<lparr>min_sec = 0, max_sec = 0\<rparr>"
    by (simp add: toAgeInSeconds_def int64_div_def)
  have small: "toAgeInSeconds a = \<lparr>min_sec = 0, max_sec = 0\<rparr>"
    using assms by (simp add: toAgeInSeconds_def int64_div_below_divisor)
  show ?thesis
    by (simp add: NewRouteCache_def Let_def small zero)
qed

theorem toAgeInSeconds_sub_second_witness:
  "toAgeInSeconds \<lparr>Min_age = 500 * Millisecond, Max_age = 999999999\<rparr>
     = \<lparr>min_sec = 0, max_sec = 0\<rparr> \<and>
   toAgeInSeconds \<lparr>Min_age = 500 * Millisecond, Max_age = 999999999\<rparr>
     = toAgeInSeconds \<lparr>Min_age = 0, Max_age = 0\<rparr> \<and>
   fst (NewRouteCache (Some ()) \<lparr>Min_age = 500 * Millisecond, Max_age = 999999999\<rparr>)
     = fst (NewRouteCache (Some ()) \<lparr>Min_age = 0, Max_age = 0\<rparr>)"
proof -
  have "0 <s Min_age \<lparr>Min_age = 500 * Millisecond, Max_age = 999999999\<rparr>"
    and "Min_age \<lparr>Min_age = 500 * Millisecond, Max_age = 999999999\<rparr> <s Second"
    and "0 <s Max_age \<lparr>Min_age = 500 * Millisecond, Max_age = 999999999\<rparr>"
    and "Max_age \<lparr>Min_age = 500 * Millisecond, Max_age = 999999999\<rparr> <s Second"
    by (simp_all add: Second_def Millisecond_def word_sless_alt)
  then show ?thesis
    by (rule toAgeInSeconds_sub_second)
qed

subsection \<open>The capturing writer\<close>

text \<open>
  The recorded length never exceeds what the buffer holds, so the one \<open>ReadAll\<close> of the
  executor cannot meet an empty buffer with a length to read.
\<close>

lemma do_call_len_le:
  "len rw \<le> length (buffer rw) \<Longrightarrow> len (do_call c rw) \<le> length (buffer (do_call c rw))"
  by (cases c) (simp_all add: Write_def WriteHeader_def)

lemma ServeHTTP_len_le:
  "len rw \<le> length (buffer rw) \<Longrightarrow>
     len (ServeHTTP calls rw) \<le> length (buffer (ServeHTTP calls rw))"
  unfolding ServeHTTP_def
  by (induction calls arbitrary: rw) (simp_all add: do_call_len_le)

lemma ReadAll_take:
  assumes "len rw \<le> length (buffer rw)"
  shows "ReadAll rw =
           (take (len rw) (buffer rw), None, rw\<lparr>buffer := drop (len rw) (buffer rw)\<rparr>)"
proof (cases "len rw = 0")
  case True
  then show ?thesis
    by (simp add: ReadAll_def)
next
  case False
  with assms have "buffer rw \<noteq> []"
    by auto
  with False assms show ?thesis
    by (simp add: ReadAll_def Read_def Buffer_Read_def)
qed

lemma ReadAll_after_ServeHTTP:
  "ReadAll (ServeHTTP calls newResponseReadWriter) =
     (let rw = ServeHTTP calls newResponseReadWriter
      in (take (len rw) (buffer rw), None, rw\<lparr>buffer := drop (len rw) (buffer rw)\<rparr>))"
  unfolding Let_def
  by (rule ReadAll_take, rule ServeHTTP_len_le) (simp add: newResponseReadWriter_def)

text \<open>
  What the executor returns: never an error, the front of the buffer as long as the
  last slice written, the header map of the writer, and a fingerprint of key and clock.
\<close>

lemma httpExecutor_eq:
  "httpExecutor w request hnd nsec now k =
     (let rw = ServeHTTP (hnd request) newResponseReadWriter
      in \<lparr>Response = \<lparr>Bytes = take (len rw) (buffer rw), Header = header rw\<rparr>,
          LastValid = now, Etag = generateETag (bytes_of k) nsec, Err = None\<rparr>)"
  by (simp add: httpExecutor_def ReadAll_after_ServeHTTP Let_def)

text \<open>
  Claim C2 does not hold of the code. A handler that writes the slices \<open>[1, 2]\<close> and
  \<open>[3]\<close> leaves the full body \<open>[1, 2, 3]\<close> in the buffer, but \<open>Write\<close> has overwritten the
  recorded length with that of the last slice, and the snapshot of the executor holds
  the single byte \<open>[1]\<close>.
\<close>

theorem httpExecutor_two_writes:
  "buffer (ServeHTTP two_writes newResponseReadWriter) = [1, 2, 3] \<and>
   Bytes (Response (httpExecutor w r (\<lambda>_. two_writes) nsec now k)) = [1]"
  by (simp add: httpExecutor_eq two_writes_def ServeHTTP_def Write_def newResponseReadWriter_def)





lemma ServeHTTP_nothing_written:
  assumes "set calls \<subseteq> range Call_WriteHeader \<union> {Call_Write []}"
      and "buffer rw = []" and "header rw = []"
  shows "buffer (ServeHTTP calls rw) = [] \<and> header (ServeHTTP calls rw) = []"
  using assms unfolding ServeHTTP_def
  by (induction calls arbitrary: rw) (auto simp: Write_def WriteHeader_def)

text \<open>
  Claim C8. For every handler run that writes nothing (no header is touched and no
  byte is written: the handler makes no call, or only sets a status or writes empty
  slices), the executor returns a snapshot with an empty body and an empty header map,
  and no error.
\<close>

theorem httpExecutor_nothing_written:
  assumes "set (hnd request) \<subseteq> range Call_WriteHeader \<union> {Call_Write []}"
  shows "Response (httpExecutor w request hnd nsec now k) = \<lparr>Bytes = [], Header = []\<rparr> \<and>
         Err (httpExecutor w request hnd nsec now k) = None"
  using ServeHTTP_nothing_written [OF assms, of newResponseReadWriter]
  by (simp add: httpExecutor_eq Let_def newResponseReadWriter_def)

theorem httpExecutor_nothing_written_witness:
  "Response (httpExecutor () example_request
               (\<lambda>_. [Call_WriteHeader 204, Call_Write []]) 5 100 ''GET/v'')
     = \<lparr>Bytes = [], Header = []\<rparr> \<and>
   Err (httpExecutor () example_request
          (\<lambda>_. [Call_WriteHeader 204, Call_Write []]) 5 100 ''GET/v'') = None"
proof -
  have "set ((\<lambda>_. [Call_WriteHeader 204, Call_Write []]) example_request)
          \<subseteq> range Call_WriteHeader \<union> {Call_Write []}"
    by simp
  then show ?thesis
    by (rule httpExecutor_nothing_written)
qed




subsection \<open>The fingerprint\<close>

text \<open>
  Claim C4, as the code has it. The ETag of an execution is \<open>generateETag\<close> of the bytes
  of the cache key and of the nanosecond reading of the clock, and of nothing else: two
  executions with the same key and the same reading carry the same ETag, whatever the
  two handlers wrote.
\<close>

theorem httpExecutor_Etag:
  "Etag (httpExecutor w r hnd nsec now k) = generateETag (bytes_of k) nsec \<and>
   Etag (httpExecutor w r hnd nsec now k) = Etag (httpExecutor w' r' hnd' nsec now' k)"
  by (simp add: httpExecutor_eq Let_def)

text \<open>Two payloads, one key, one clock reading, one ETag.\<close>

theorem httpExecutor_Etag_counterexample:
  "Bytes (Response (httpExecutor () example_request (\<lambda>_. [Call_Write [1]]) 5 100 ''GET/v'')) \<noteq>
   Bytes (Response (httpExecutor () example_request (\<lambda>_. [Call_Write [2]]) 5 100 ''GET/v'')) \<and>
   Etag (httpExecutor () example_request (\<lambda>_. [Call_Write [1]]) 5 100 ''GET/v'') =
   Etag (httpExecutor () example_request (\<lambda>_. [Call_Write [2]]) 5 100 ''GET/v'')"
  by (simp add: httpExecutor_eq ServeHTTP_def Write_def newResponseReadWriter_def)

subsection \<open>The entry point\<close>



lemma handler_Err:
  assumes "\<forall>e. decide (route_age rc) req now (cache_Get (cache rc) (key req)) \<noteq> HIT e"
      and "Err (exec now (key req)) = Some err"
  shows "handler exec rc now req = (Inl err, rc)"
  using assms
  by (cases "decide (route_age rc) req now (cache_Get (cache rc) (key req))")
     (simp_all add: handler_def Let_def)

text \<open>The example: the first request is a MISS and stores what the executor returned.\<close>

lemma example_route_eq:
  "example_route = \<lparr>cache = Some Map.empty, route_age = \<lparr>min_sec = 0, max_sec = 60\<rparr>\<rparr>"
  by (simp add: example_route_def toAgeInSeconds_def int64_div_def Second_def
      signed_divide_int_def)





lemma first_request_MISS:
  "decide (route_age example_route) (toCacheHandlerRequest example_request) 100
     (cache_Get (cache example_route) (key (toCacheHandlerRequest example_request)))
   = MISS"
  by (simp add: example_route_eq decide_def cache_Get_def)




text \<open>
  Claim C5, as the code has it. For every request on which the executor runs (the
  outcome is not HIT) and fails, \<open>Handler\<close> returns the failure wrapped by \<open>fmt.Errorf\<close>
  under the prefix "could not handle request with the cache processor", with the
  executor's error as the wrapped cause; the outgoing response and the store are left
  exactly as they were.
\<close>

theorem Handler_exec_Err:
  assumes "\<forall>e. decide (route_age rc) (toCacheHandlerRequest r) now
                  (cache_Get (cache rc) (key (toCacheHandlerRequest r))) \<noteq> HIT e"
      and "Err (exec now (key (toCacheHandlerRequest r))) = Some err"
  shows "Handler_exec exec w r rc now =
           (Returned (Some (Errorf ''could not handle request with the cache processor'' err)),
            w, rc)"
  using handler_Err [of rc "toCacheHandlerRequest r" now exec err] assms
  by (simp add: Handler_exec_def Let_def)

theorem Handler_exec_Err_witness:
  "Handler_exec failing_executor fresh_sink example_request example_route 100 =
     (Returned (Some (Errorf ''could not handle request with the cache processor'' EOF)),
      fresh_sink, example_route)"
proof -
  have miss: "\<forall>e. decide (route_age example_route) (toCacheHandlerRequest example_request) 100
                 (cache_Get (cache example_route) (key (toCacheHandlerRequest example_request)))
               \<noteq> HIT e"
    by (simp add: first_request_MISS)
  have fails: "Err (failing_executor 100 (key (toCacheHandlerRequest example_request))) = Some EOF"
    by (simp add: failing_executor_def)
  show ?thesis
    using Handler_exec_Err
            [of example_route example_request 100 failing_executor EOF fresh_sink] miss fails
    by simp
qed

text \<open>The error that reaches the caller is not the executor's error itself.\<close>

theorem Handler_exec_Err_counterexample:
  "Err (failing_executor 100 (key (toCacheHandlerRequest example_request))) = Some EOF \<and>
   fst (Handler_exec failing_executor fresh_sink example_request example_route 100)
     \<noteq> Returned (Some EOF)"
  by (simp add: Handler_exec_def Let_def handler_def first_request_MISS failing_executor_def)

end
